theory Spec2Isabelle
  imports Complex_Main
begin

section \<open>MetroPulse NYC: the station-intelligence core of \<^verbatim>\<open>backend/app/main.py\<close>\<close>

subsection \<open>Python values\<close>

text \<open>
  A Python float is a finite number or NaN. Finite floats are modelled as reals (rounding
  is not modelled; infinities are left out: the database layer replaces them by 0).
  Every comparison with NaN is false and arithmetic on NaN gives NaN.
  An absent value (\<^verbatim>\<open>None\<close>) is \<open>None\<close> of an option type.
\<close>

datatype pyfloat = Fin real | NaN

datatype py_error = KeyError | ValueError

fun fgt :: "pyfloat \<Rightarrow> pyfloat \<Rightarrow> bool" where
  "fgt (Fin a) (Fin b) = (a > b)"
| "fgt _ _ = False"

fun flt :: "pyfloat \<Rightarrow> pyfloat \<Rightarrow> bool" where
  "flt (Fin a) (Fin b) = (a < b)"
| "flt _ _ = False"

fun fadd :: "pyfloat \<Rightarrow> pyfloat \<Rightarrow> pyfloat" where
  "fadd (Fin a) (Fin b) = Fin (a + b)"
| "fadd _ _ = NaN"

fun fsub :: "pyfloat \<Rightarrow> pyfloat \<Rightarrow> pyfloat" where
  "fsub (Fin a) (Fin b) = Fin (a - b)"
| "fsub _ _ = NaN"

fun fmul :: "pyfloat \<Rightarrow> pyfloat \<Rightarrow> pyfloat" where
  "fmul (Fin a) (Fin b) = Fin (a * b)"
| "fmul _ _ = NaN"

subsection \<open>\<^verbatim>\<open>GeoEngine.get_borough\<close>\<close>

text \<open>
  Zone C of the East River boundary:
  \<^verbatim>\<open>east_river_border = -74.01 + (lat - 40.68) * 0.8\<close>.
\<close>

definition east_river_border :: "pyfloat \<Rightarrow> pyfloat" where
  "east_river_border lat = fadd (Fin (- 74.01)) (fmul (fsub lat (Fin 40.68)) (Fin 0.8))"

text \<open>The value of the local flag \<^verbatim>\<open>is_manhattan\<close> after the three zones (A, B, C).\<close>

definition is_manhattan :: "pyfloat \<Rightarrow> pyfloat \<Rightarrow> bool" where
  "is_manhattan lat lon =
     (if fgt lat (Fin 40.76) then flt lon (Fin (- 73.935))
      else if fgt lat (Fin 40.74) then flt lon (Fin (- 73.96))
      else flt lon (east_river_border lat))"

text \<open>The Brooklyn / Queens divide, reached when the point is not in Manhattan.\<close>

definition brooklyn_or_queens :: "pyfloat \<Rightarrow> pyfloat \<Rightarrow> string" where
  "brooklyn_or_queens lat lon =
     (if flt lat (Fin 40.60) then (if fgt lon (Fin (- 73.90)) then ''Queens'' else ''Brooklyn'')
      else if fgt lat (Fin 40.70) then
        (if fgt lon (Fin (- 73.91)) then ''Queens''
         else if fgt lat (Fin 40.735) then ''Queens''
         else ''Brooklyn'')
      else if flt lat (Fin 40.70) \<and> fgt lon (Fin (- 73.86)) then ''Queens''
      else ''Brooklyn'')"

fun get_borough :: "pyfloat option \<Rightarrow> pyfloat option \<Rightarrow> string" where
  "get_borough None lon = ''NYC''"
| "get_borough lat None = ''NYC''"
| "get_borough (Some lat) (Some lon) =
     (if fgt lat (Fin 40.835) then ''Bronx''
      else if flt lon (Fin (- 74.05)) then ''Staten Island''
      else if fgt lon (Fin (- 73.85)) then ''Queens''
      else if is_manhattan lat lon then
        (if fgt lat (Fin 40.88) then ''Bronx'' else ''Manhattan'')
      else brooklyn_or_queens lat lon)"

text \<open>
  The six labels the classifier can return, as the strings of the source. The label the
  specification calls StatenIsland is the string \<^verbatim>\<open>Staten Island\<close>, and the label it calls
  Unknown is the string \<^verbatim>\<open>NYC\<close>.
\<close>

definition borough_labels :: "string list" where
  "borough_labels = [''Bronx'', ''Staten Island'', ''Queens'', ''Manhattan'', ''Brooklyn'', ''NYC'']"

text \<open>
  The classifier with the Marble Hill / Inwood check removed: the Manhattan branch returns
  \<^verbatim>\<open>Manhattan\<close> at once. Everything else is as in \<open>get_borough\<close>.
\<close>

fun get_borough_no_override :: "pyfloat option \<Rightarrow> pyfloat option \<Rightarrow> string" where
  "get_borough_no_override None lon = ''NYC''"
| "get_borough_no_override lat None = ''NYC''"
| "get_borough_no_override (Some lat) (Some lon) =
     (if fgt lat (Fin 40.835) then ''Bronx''
      else if flt lon (Fin (- 74.05)) then ''Staten Island''
      else if fgt lon (Fin (- 73.85)) then ''Queens''
      else if is_manhattan lat lon then ''Manhattan''
      else brooklyn_or_queens lat lon)"

subsection \<open>\<^verbatim>\<open>normalize_key\<close>\<close>

text \<open>
  \<^verbatim>\<open>re.sub(r'[^a-zA-Z0-9]', '', str(name)).lower()\<close>, and the empty string for an
  empty name. Only ASCII letters and digits survive the substitution.
\<close>

definition is_alnum :: "char \<Rightarrow> bool" where
  "is_alnum c = (c \<in> set ''abcdefghijklmnopqrstuvwxyzABCDEFGHIJKLMNOPQRSTUVWXYZ0123456789'')"

definition lower :: "char \<Rightarrow> char" where
  "lower c =
     (case map_of (zip ''ABCDEFGHIJKLMNOPQRSTUVWXYZ'' ''abcdefghijklmnopqrstuvwxyz'') c of
        Some l \<Rightarrow> l
      | None \<Rightarrow> c)"

definition normalize_key :: "string \<Rightarrow> string" where
  "normalize_key name = (if name = [] then [] else map lower (filter is_alnum name))"

subsection \<open>The tables built at startup\<close>

text \<open>
  The module's globals \<^verbatim>\<open>STATION_PULSE_CACHE\<close>, \<^verbatim>\<open>CLUSTER_PROFILES\<close> and
  \<^verbatim>\<open>DISTRIBUTIONS\<close> are filled once at import time and only read afterwards; the
  functions below take them as one record.
\<close>

record tables =
  STATION_PULSE_CACHE :: "string \<rightharpoonup> pyfloat list"
  CLUSTER_PROFILES :: "string \<rightharpoonup> pyfloat list"
  DISTRIBUTIONS :: "string \<rightharpoonup> int list"

subsection \<open>\<^verbatim>\<open>calculate_percentile\<close>\<close>

definition calculate_percentile :: "(string \<rightharpoonup> int list) \<Rightarrow> string \<Rightarrow> int option \<Rightarrow> real" where
  "calculate_percentile dists dist_key val =
     (let data = (case dists dist_key of None \<Rightarrow> [] | Some d \<Rightarrow> d) in
      if data = [] then 0
      else
        let v = (case val of None \<Rightarrow> 0 | Some x \<Rightarrow> x);
            count_less = length (filter (\<lambda>x. x < v) data)
        in (real count_less / real (length data)) * 100)"

subsection \<open>\<^verbatim>\<open>get_clean_time_dna\<close>\<close>

text \<open>
  A TimeDNA is a Python dict; its insertion order matters to \<^verbatim>\<open>max\<close>, so it is an
  association list.
\<close>

type_synonym time_dna = "(string \<times> int) list"

text \<open>\<^verbatim>\<open>np.nan_to_num(day, nan=0.0)\<close>\<close>

definition nan_to_num :: "pyfloat list \<Rightarrow> real list" where
  "nan_to_num day = map (\<lambda>x. case x of Fin r \<Rightarrow> r | NaN \<Rightarrow> 0) day"

text \<open>The slice \<^verbatim>\<open>xs[a:b]\<close> for \<open>0 \<le> a \<le> b\<close>; it is shorter when the list is.\<close>

definition slice :: "nat \<Rightarrow> nat \<Rightarrow> 'a list \<Rightarrow> 'a list" where
  "slice a b xs = take (b - a) (drop a xs)"

text \<open>\<^verbatim>\<open>np.mean\<close> of an empty slice is NaN.\<close>

definition np_mean :: "real list \<Rightarrow> pyfloat" where
  "np_mean xs = (if xs = [] then NaN else Fin (sum_list xs / real (length xs)))"

text \<open>Division by a nonzero constant (the only divisor in the source is 2).\<close>

fun fdiv :: "pyfloat \<Rightarrow> real \<Rightarrow> pyfloat" where
  "fdiv (Fin a) c = Fin (a / c)"
| "fdiv NaN c = NaN"

text \<open>\<^verbatim>\<open>int(x)\<close> truncates towards zero and raises ValueError on NaN.\<close>

definition trunc :: "real \<Rightarrow> int" where
  "trunc r = (if 0 \<le> r then \<lfloor>r\<rfloor> else \<lceil>r\<rceil>)"

fun py_int :: "pyfloat \<Rightarrow> py_error + int" where
  "py_int (Fin r) = Inr (trunc r)"
| "py_int NaN = Inl ValueError"

text \<open>
  The pulse the extraction works on (the local \<^verbatim>\<open>day\<close> before \<^verbatim>\<open>nan_to_num\<close>):
  the station's own pulse when its normalised name is in the pulse cache, else the first 24
  values of the cluster's profile when it has at least 24, else 24 times 20.0.
\<close>

definition resolve_day :: "('a tables_scheme) \<Rightarrow> string \<Rightarrow> string \<Rightarrow> pyfloat list" where
  "resolve_day t station_name cluster_id =
     (let key = normalize_key station_name in
      case STATION_PULSE_CACHE t key of
        Some day \<Rightarrow> day
      | None \<Rightarrow>
          (let cluster_profile = (case CLUSTER_PROFILES t cluster_id of None \<Rightarrow> [] | Some p \<Rightarrow> p)
           in if length cluster_profile \<ge> 24 then take 24 cluster_profile
              else replicate 24 (Fin 20)))"

text \<open>The four buckets, evaluated in the order of the dict literal.\<close>

definition buckets :: "real list \<Rightarrow> py_error + time_dna" where
  "buckets day =
     (case py_int (np_mean (slice 6 10 day)) of Inl e \<Rightarrow> Inl e | Inr morning \<Rightarrow>
      case py_int (np_mean (slice 11 14 day)) of Inl e \<Rightarrow> Inl e | Inr lunch \<Rightarrow>
      case py_int (np_mean (slice 16 20 day)) of Inl e \<Rightarrow> Inl e | Inr evening \<Rightarrow>
      case py_int (fdiv (fadd (np_mean (slice 22 24 day)) (np_mean (slice 0 4 day))) 2) of
        Inl e \<Rightarrow> Inl e | Inr night \<Rightarrow>
      Inr [(''morning'', morning), (''lunch'', lunch), (''evening'', evening), (''night'', night)])"

definition get_clean_time_dna :: "('a tables_scheme) \<Rightarrow> string \<Rightarrow> string \<Rightarrow> py_error + time_dna" where
  "get_clean_time_dna t station_name cluster_id =
     buckets (nan_to_num (resolve_day t station_name cluster_id))"

subsection \<open>\<^verbatim>\<open>RuleBasedNarrative.generate\<close>\<close>

text \<open>\<^verbatim>\<open>time_dna[k]\<close> raises KeyError for a missing key.\<close>

definition dna_get :: "time_dna \<Rightarrow> string \<Rightarrow> py_error + int" where
  "dna_get time_dna k = (case map_of time_dna k of None \<Rightarrow> Inl KeyError | Some v \<Rightarrow> Inr v)"

text \<open>
  Part A, the cascade that sets the local \<^verbatim>\<open>character_type\<close>. The \<^verbatim>\<open>and\<close> of the
  second rule reads \<^verbatim>\<open>time_dna['night']\<close> only when \<^verbatim>\<open>vitality > 75\<close>.
\<close>

definition character_type :: "real \<Rightarrow> real \<Rightarrow> int \<Rightarrow> time_dna \<Rightarrow> py_error + string" where
  "character_type vitality office uni time_dna =
     (if uni > 2 then Inr ''Academic''
      else
        case (if vitality > 75
              then (case dna_get time_dna ''night'' of Inl e \<Rightarrow> Inl e | Inr n \<Rightarrow> Inr (n > 40))
              else Inr False) of
          Inl e \<Rightarrow> Inl e
        | Inr True \<Rightarrow> Inr ''Nightlife''
        | Inr False \<Rightarrow>
            if office > 70 then Inr ''Corporate''
            else if office > 50 \<and> vitality > 50 then Inr ''Mixed-Use''
            else
              case dna_get time_dna ''morning'' of
                Inl e \<Rightarrow> Inl e
              | Inr m \<Rightarrow>
                  if m > 60 then Inr ''Commuter''
                  else if vitality < 20 \<and> office < 20 then Inr ''Residential''
                  else Inr ''Standard'')"

text \<open>Part B, \<^verbatim>\<open>persona_map.get(character_type, "Local Station")\<close>.\<close>

definition persona_map :: "string \<Rightarrow> (string \<times> string) list" where
  "persona_map borough =
     [(''Academic'', borough @ '' Student Hub''),
      (''Nightlife'', borough @ '' Nightlife District''),
      (''Corporate'', borough @ '' Business Center''),
      (''Mixed-Use'', ''Dynamic '' @ borough @ '' Hub''),
      (''Commuter'', ''Major Transit Anchor''),
      (''Residential'', ''Local Neighborhood Stop''),
      (''Standard'', borough @ '' Local Stop'')]"

definition persona_of :: "string \<Rightarrow> string \<Rightarrow> string" where
  "persona_of borough ct =
     (case map_of (persona_map borough) ct of Some p \<Rightarrow> p | None \<Rightarrow> ''Local Station'')"

text \<open>Decimal rendering of an integer, as an f-string does it.\<close>

definition digit_char :: "nat \<Rightarrow> char" where
  "digit_char d = ''0123456789'' ! d"

fun str_nat :: "nat \<Rightarrow> string" where
  "str_nat n = (if n < 10 then [digit_char n] else str_nat (n div 10) @ [digit_char (n mod 10)])"

declare str_nat.simps [simp del]

definition str_int :: "int \<Rightarrow> string" where
  "str_int i = (if i < 0 then CHR ''-'' # str_nat (nat (- i)) else str_nat (nat i))"

text \<open>Part C, the first sentence.\<close>

definition vibe_desc :: "string \<Rightarrow> real \<Rightarrow> string \<Rightarrow> string" where
  "vibe_desc borough vitality ct =
     (if ct = ''Academic'' then
        ''Defined by student foot traffic and nearby educational institutions.''
      else if ct = ''Nightlife'' then
        ''A high-energy area (Vitality: '' @ str_int (trunc vitality)
          @ ''%) bustling with evening social activity.''
      else if ct = ''Corporate'' then
        ''A dense commercial district dominated by office buildings and professional services.''
      else if ct = ''Mixed-Use'' then
        ''A balanced 'Live-Work-Play' neighborhood combining commercial density with social amenities.''
      else if ct = ''Residential'' then
        ''A quieter, community-focused area serving local residents.''
      else ''A key '' @ borough @ '' transit point serving the surrounding community.'')"

text \<open>
  Part D. \<^verbatim>\<open>max(time_dna, key=time_dna.get)\<close> walks the keys in insertion order and keeps
  the first key whose value is maximal; on an empty dict it raises ValueError (\<open>None\<close>
  here).
\<close>

fun max_from :: "string \<times> int \<Rightarrow> time_dna \<Rightarrow> string \<times> int" where
  "max_from best [] = best"
| "max_from best (kv # rest) = max_from (if snd kv > snd best then kv else best) rest"

fun max_key :: "time_dna \<Rightarrow> string option" where
  "max_key [] = None"
| "max_key (kv # rest) = Some (fst (max_from kv rest))"

definition morning_sentence :: string where
  "morning_sentence =
     ''Passenger volume peaks in the Morning (6-10am), indicating a heavy outbound commuter flow.''"

definition lunch_sentence :: string where
  "lunch_sentence = ''Activity is highest midday (11am-2pm), driven by local lunch crowds.''"

definition evening_sentence :: string where
  "evening_sentence =
     ''Passenger volume swells in the Evening (4-8pm) as the workday ends and retail activity picks up.''"

definition night_sentence :: string where
  "night_sentence =
     ''Unusually high Late Night (10pm-4am) ridership signals a destination for after-hours entertainment.''"

definition consistent_sentence :: string where
  "consistent_sentence = ''Ridership remains consistent throughout the day.''"

definition time_desc :: "string \<Rightarrow> string" where
  "time_desc peak_time =
     (if peak_time = ''morning'' then morning_sentence
      else if peak_time = ''lunch'' then lunch_sentence
      else if peak_time = ''evening'' then evening_sentence
      else if peak_time = ''night'' then night_sentence
      else consistent_sentence)"

record base_analysis =
  persona :: string
  description :: string

definition generate :: "string \<Rightarrow> real \<Rightarrow> real \<Rightarrow> int \<Rightarrow> time_dna \<Rightarrow> py_error + base_analysis" where
  "generate borough vitality office uni time_dna =
     (case character_type vitality office uni time_dna of
        Inl e \<Rightarrow> Inl e
      | Inr ct \<Rightarrow>
          (case max_key time_dna of
             None \<Rightarrow> Inl ValueError
           | Some peak_time \<Rightarrow>
               Inr \<lparr>persona = persona_of borough ct,
                    description = vibe_desc borough vitality ct @ '' '' @ time_desc peak_time\<rparr>))"

subsection \<open>The narrative cache and \<^verbatim>\<open>get_station_analysis\<close>\<close>

text \<open>
  The record the endpoint returns: the two keys of \<^verbatim>\<open>generate\<close> extended by the scores
  and the flag. The not-found answer has only the first two keys; an absent key is \<open>None\<close>.
\<close>

record narrative = base_analysis +
  vitality_score :: "real option"
  office_score :: "real option"
  is_ai_generated :: "bool option"

text \<open>
  A value of the cache: \<^verbatim>\<open>NARRATIVES_CACHE\<close> is read from a JSON file, so a value may be
  something else than a dict, which the \<^verbatim>\<open>isinstance\<close> test of the endpoint rejects.
\<close>

datatype cached = Dict narrative | NotDict

text \<open>The file \<^verbatim>\<open>narratives.json\<close>: missing, not parseable, or a stored mapping.\<close>

datatype file_state = NoFile | Unreadable | Stored "string \<rightharpoonup> cached"

text \<open>
  The mutable state: the in-memory cache and the file. Two counters, which the source does
  not have, record how often \<^verbatim>\<open>RuleBasedNarrative.generate\<close> and the polish
  collaborator (\<^verbatim>\<open>client.models.generate_content\<close>) have been called.
\<close>

record state =
  NARRATIVES_CACHE :: "string \<rightharpoonup> cached"
  NARRATIVES_FILE :: file_state
  generate_calls :: nat
  polish_calls :: nat

text \<open>\<^verbatim>\<open>load_cache\<close>: the cache starts empty and a file that cannot be read leaves it so.\<close>

definition load_cache :: "file_state \<Rightarrow> (string \<rightharpoonup> cached)" where
  "load_cache f = (case f of Stored m \<Rightarrow> m | NoFile \<Rightarrow> Map.empty | Unreadable \<Rightarrow> Map.empty)"

text \<open>
  \<^verbatim>\<open>save_cache\<close> rewrites the whole file from the in-memory cache and swallows every
  exception. The argument says whether the write raises: \<open>None\<close> when it succeeds,
  \<open>Some left\<close> when it raises and leaves the file as \<open>left\<close>.
\<close>

definition save_cache :: "file_state option \<Rightarrow> state \<Rightarrow> state" where
  "save_cache failure s =
     s\<lparr>NARRATIVES_FILE :=
         (case failure of None \<Rightarrow> Stored (NARRATIVES_CACHE s) | Some left \<Rightarrow> left)\<rparr>"

text \<open>A row of the station table \<^verbatim>\<open>clusters.parquet\<close>, with the columns the endpoint reads.\<close>

record station_row =
  cluster_id :: string
  GTFS_Latitude :: "pyfloat option"
  GTFS_Longitude :: "pyfloat option"
  n_bars :: "int option"
  n_offices :: "int option"
  n_universities :: "int option"

text \<open>
  What a request reads and never writes: the startup tables and the station table, where
  \<open>clusters_db w station\<close> is the answer of
  \<^verbatim>\<open>db.query("SELECT * ... WHERE STATION = ?", (station,))\<close> (the empty list also when the
  query fails).
\<close>

record world = tables +
  clusters_db :: "string \<Rightarrow> station_row list"

text \<open>
  What the outside does during one request. \<open>client\<close> is \<open>None\<close> when no polish client
  is configured; otherwise it is what the call to the collaborator leads to: a parsed answer
  with a \<^verbatim>\<open>description\<close>, or anything else (an exception, an answer that is not JSON or
  has no description), which the \<^verbatim>\<open>try\<close> block turns into a log line.
  \<open>write_failure\<close> is the argument of \<open>save_cache\<close>.
\<close>

datatype polish_outcome = Polished string | PolishFailed

record io =
  client :: "polish_outcome option"
  write_failure :: "file_state option"

definition sentinel :: narrative where
  "sentinel =
     \<lparr>persona = ''Unknown Station'', description = ''Data unavailable.'',
      vitality_score = None, office_score = None, is_ai_generated = None\<rparr>"

text \<open>Step 2 of the endpoint, the optional polish: only the description and the flag change.\<close>

definition polish :: "polish_outcome option \<Rightarrow> state \<Rightarrow> narrative \<Rightarrow> narrative \<times> state" where
  "polish c s result =
     (case c of
        None \<Rightarrow> (result, s)
      | Some PolishFailed \<Rightarrow> (result, s\<lparr>polish_calls := Suc (polish_calls s)\<rparr>)
      | Some (Polished d) \<Rightarrow>
          (result\<lparr>description := d, is_ai_generated := Some True\<rparr>,
           s\<lparr>polish_calls := Suc (polish_calls s)\<rparr>))"

definition get_station_analysis ::
  "world \<Rightarrow> io \<Rightarrow> state \<Rightarrow> string \<Rightarrow> (py_error + narrative) \<times> state" where
  "get_station_analysis w x s station =
     (case NARRATIVES_CACHE s station of
        Some (Dict r) \<Rightarrow> (Inr r, s)
      | _ \<Rightarrow>
          (case clusters_db w station of
             [] \<Rightarrow> (Inr sentinel, s)
           | data # _ \<Rightarrow>
               (let cid = cluster_id data;
                    borough = get_borough (GTFS_Latitude data) (GTFS_Longitude data)
                in case get_clean_time_dna w station cid of
                     Inl e \<Rightarrow> (Inl e, s)
                   | Inr time_dna \<Rightarrow>
                       (let vitality = calculate_percentile (DISTRIBUTIONS w) ''bars'' (n_bars data);
                            office = calculate_percentile (DISTRIBUTIONS w) ''offices'' (n_offices data);
                            uni_count = (case n_universities data of None \<Rightarrow> 0 | Some u \<Rightarrow> u);
                            s1 = s\<lparr>generate_calls := Suc (generate_calls s)\<rparr>
                        in case generate borough vitality office uni_count time_dna of
                             Inl e \<Rightarrow> (Inl e, s1)
                           | Inr base \<Rightarrow>
                               (let result =
                                      \<lparr>persona = persona base, description = description base,
                                       vitality_score = Some vitality, office_score = Some office,
                                       is_ai_generated = Some False\<rparr>;
                                    (result', s2) = polish (client x) s1 result;
                                    s3 = s2\<lparr>NARRATIVES_CACHE := (NARRATIVES_CACHE s2)(station \<mapsto> Dict result')\<rparr>
                                in (Inr result', save_cache (write_failure x) s3))))))"

subsection \<open>Example inputs\<close>

text \<open>Concrete tables and requests, used to run the definitions.\<close>

definition example_distributions :: "string \<rightharpoonup> int list" where
  "example_distributions =
     [''bars'' \<mapsto> [0, 1, 2, 3, 4, 5, 6, 7, 8, 9],
      ''offices'' \<mapsto> [0, 1, 2, 3, 4, 5, 6, 7, 8, 9],
      ''unis'' \<mapsto> []]"

definition example_pulse :: "pyfloat list" where
  "example_pulse =
     [Fin 50, Fin 50, Fin 50, Fin 50, Fin 10, Fin 10, Fin 30, Fin 30, Fin 30, Fin 30, Fin 20, Fin 20,
      Fin 20, Fin 20, Fin 25, Fin 25, Fin 45, Fin 45, Fin 45, Fin 45, Fin 50, Fin 50, Fin 60, Fin 60]"

definition short_profile :: "pyfloat list" where
  "short_profile = replicate 10 (Fin 100)"

definition example_tables :: tables where
  "example_tables =
     \<lparr>STATION_PULSE_CACHE = [''timessq42st'' \<mapsto> example_pulse],
      CLUSTER_PROFILES = [''1'' \<mapsto> short_profile, ''2'' \<mapsto> example_pulse @ example_pulse],
      DISTRIBUTIONS = example_distributions\<rparr>"

definition example_flat_dna :: time_dna where
  "example_flat_dna = [(''morning'', 20), (''lunch'', 20), (''evening'', 20), (''night'', 20)]"

definition example_dna :: time_dna where
  "example_dna = [(''morning'', 30), (''lunch'', 20), (''evening'', 45), (''night'', 55)]"

definition example_row :: station_row where
  "example_row =
     \<lparr>cluster_id = ''1'', GTFS_Latitude = Some (Fin 40.739), GTFS_Longitude = Some (Fin (- 74.002)),
      n_bars = Some 9, n_offices = Some 2, n_universities = None\<rparr>"

definition example_world :: world where
  "example_world =
     \<lparr>STATION_PULSE_CACHE = [''timessq42st'' \<mapsto> example_pulse],
      CLUSTER_PROFILES = [''1'' \<mapsto> short_profile, ''2'' \<mapsto> example_pulse @ example_pulse],
      DISTRIBUTIONS = example_distributions,
      clusters_db = (\<lambda>station. if station = ''Times Sq-42 St'' then [example_row] else [])\<rparr>"

definition example_start :: state where
  "example_start =
     \<lparr>NARRATIVES_CACHE = Map.empty, NARRATIVES_FILE = NoFile, generate_calls = 0, polish_calls = 0\<rparr>"

definition example_narrative :: narrative where
  "example_narrative =
     \<lparr>persona = ''Manhattan Nightlife District'',
      description =
        ''A high-energy area (Vitality: 90%) bustling with evening social activity. ''
          @ night_sentence,
      vitality_score = Some 90, office_score = Some 20, is_ai_generated = Some False\<rparr>"

definition failing_write :: io where
  "failing_write = \<lparr>client = None, write_failure = Some NoFile\<rparr>"

definition example_polished :: io where
  "example_polished = \<lparr>client = Some (Polished ''A lively corner of Manhattan.''), write_failure = None\<rparr>"

definition example_after :: state where
  "example_after =
     \<lparr>NARRATIVES_CACHE = [''Times Sq-42 St'' \<mapsto> Dict example_narrative],
      NARRATIVES_FILE = NoFile, generate_calls = 1, polish_calls = 0\<rparr>"

definition example_polished_narrative :: narrative where
  "example_polished_narrative =
     \<lparr>persona = ''Manhattan Nightlife District'',
      description = ''A lively corner of Manhattan.'',
      vitality_score = Some 90, office_score = Some 20, is_ai_generated = Some True\<rparr>"

definition example_after_polish :: state where
  "example_after_polish =
     \<lparr>NARRATIVES_CACHE = [''Times Sq-42 St'' \<mapsto> Dict example_polished_narrative],
      NARRATIVES_FILE = Stored [''Times Sq-42 St'' \<mapsto> Dict example_polished_narrative],
      generate_calls = 1, polish_calls = 1\<rparr>"

section \<open>Properties\<close>

subsection \<open>The borough classifier\<close>

lemma brooklyn_or_queens_cases:
  "brooklyn_or_queens lat lon = ''Queens'' \<or> brooklyn_or_queens lat lon = ''Brooklyn''"
  unfolding brooklyn_or_queens_def by presburger

lemma get_borough_cases:
  "get_borough lat lon = ''Bronx'' \<or> get_borough lat lon = ''Staten Island''
   \<or> get_borough lat lon = ''Queens'' \<or> get_borough lat lon = ''Manhattan''
   \<or> get_borough lat lon = ''Brooklyn'' \<or> get_borough lat lon = ''NYC''"
proof (cases lat)
  case None
  then show ?thesis by simp
next
  case lat: (Some a)
  show ?thesis
  proof (cases lon)
    case None
    with lat show ?thesis by simp
  next
    case (Some b)
    with lat brooklyn_or_queens_cases [of a b] show ?thesis by auto
  qed
qed

lemma fgt_trans_const: "fgt x (Fin b) \<Longrightarrow> a \<le> b \<Longrightarrow> fgt x (Fin a)"
  by (cases x) auto

text \<open>
  Claim C2, as amended. The classifier is total over six labels: for every pair of
  coordinates, absent or NaN ones included, \<open>get_borough\<close> returns exactly one of the
  six distinct strings \<^verbatim>\<open>Bronx\<close>, \<^verbatim>\<open>Staten Island\<close>, \<^verbatim>\<open>Queens\<close>,
  \<^verbatim>\<open>Manhattan\<close>, \<^verbatim>\<open>Brooklyn\<close> and \<^verbatim>\<open>NYC\<close>, and when either coordinate is
  absent it returns \<^verbatim>\<open>NYC\<close>.
\<close>

theorem get_borough_total:
  "get_borough lat lon \<in> set borough_labels
   \<and> distinct borough_labels \<and> length borough_labels = 6
   \<and> get_borough None lon = ''NYC'' \<and> get_borough lat None = ''NYC''"
proof -
  have "get_borough lat None = ''NYC''" by (cases lat) simp_all
  moreover have "get_borough lat lon \<in> set borough_labels"
    using get_borough_cases [of lat lon] unfolding borough_labels_def by auto
  moreover have "distinct borough_labels \<and> length borough_labels = 6"
    unfolding borough_labels_def by simp
  ultimately show ?thesis by simp
qed

text \<open>
  Claim C2 as stated fails on the sixth label: with an absent coordinate the classifier
  returns the string \<^verbatim>\<open>NYC\<close>, and the string \<^verbatim>\<open>Unknown\<close> is not among the labels it
  can return.
\<close>

theorem missing_coordinate_label_counterexample:
  "get_borough None (Some (Fin (- 73.98))) = ''NYC''
   \<and> get_borough (Some (Fin 40.75)) None = ''NYC''
   \<and> get_borough None (Some (Fin (- 73.98))) \<noteq> ''Unknown''
   \<and> ''Unknown'' \<notin> set borough_labels"
  by (simp add: borough_labels_def)

text \<open>
  Claim C10. The Marble Hill override is unreachable: a latitude above 40.88 is above
  40.835 and has already been classified as Bronx by the first rule, so the classifier
  without the override returns the same label on every input.
\<close>

theorem marble_hill_override_unreachable:
  "get_borough_no_override lat lon = get_borough lat lon"
proof (cases lat)
  case None
  then show ?thesis by simp
next
  case lat: (Some a)
  show ?thesis
  proof (cases lon)
    case None
    with lat show ?thesis by simp
  next
    case lon: (Some b)
    show ?thesis
    proof (cases "fgt a (Fin 40.88)")
      case True
      then have "fgt a (Fin 40.835)" by (rule fgt_trans_const) simp
      with lat lon show ?thesis by simp
    next
      case False
      with lat lon show ?thesis by simp
    qed
  qed
qed

subsection \<open>The percentile scorer\<close>

lemma calculate_percentile_empty:
  "dists k = None \<or> dists k = Some [] \<Longrightarrow> calculate_percentile dists k v = 0"
  by (auto simp: calculate_percentile_def)

lemma calculate_percentile_nonempty:
  "dists k = Some d \<Longrightarrow> d \<noteq> [] \<Longrightarrow>
   calculate_percentile dists k v =
     100 * real (length (filter (\<lambda>x. x < (case v of None \<Rightarrow> 0 | Some y \<Rightarrow> y)) d)) / real (length d)"
  by (simp add: calculate_percentile_def Let_def)

lemma percent_le: "c \<le> n \<Longrightarrow> 0 < n \<Longrightarrow> 100 * real c / real n \<le> 100"
  by (simp add: field_simps)

lemma percent_less: "c < n \<Longrightarrow> 100 * real c / real n < 100"
  by (simp add: field_simps)

lemma percent_mono: "c \<le> c' \<Longrightarrow> 100 * real c / real n \<le> 100 * real c' / real n"
  by (simp add: divide_right_mono)

lemma calculate_percentile_range:
  "0 \<le> calculate_percentile dists k v \<and> calculate_percentile dists k v \<le> 100"
proof (cases "dists k = None \<or> dists k = Some []")
  case True
  then show ?thesis by (simp add: calculate_percentile_empty)
next
  case False
  then obtain d where d: "dists k = Some d" "d \<noteq> []" by auto
  let ?c = "length (filter (\<lambda>x. x < (case v of None \<Rightarrow> 0 | Some y \<Rightarrow> y)) d)"
  have "?c \<le> length d" by simp
  moreover have "0 < length d" using d by simp
  ultimately have "100 * real ?c / real (length d) \<le> 100" by (rule percent_le)
  then show ?thesis using d by (simp add: calculate_percentile_nonempty)
qed

lemma filter_length_less:
  "x \<in> set d \<Longrightarrow> \<not> P x \<Longrightarrow> length (filter P d) < length d"
  by (rule length_filter_less)

lemma calculate_percentile_below_100:
  assumes "dists k = Some d" "x \<in> set d" "(case v of None \<Rightarrow> 0 | Some y \<Rightarrow> y) \<le> x"
  shows "calculate_percentile dists k v < 100"
proof -
  let ?v = "case v of None \<Rightarrow> 0 | Some y \<Rightarrow> y"
  let ?c = "length (filter (\<lambda>x. x < ?v) d)"
  have ne: "d \<noteq> []" using assms(2) by auto
  have "?c < length d" using assms(2,3) by (intro filter_length_less [of x]) auto
  then have "100 * real ?c / real (length d) < 100" by (rule percent_less)
  then show ?thesis using assms(1) ne by (simp add: calculate_percentile_nonempty)
qed

lemma filter_length_mono:
  "(\<And>x. P x \<Longrightarrow> Q x) \<Longrightarrow> length (filter P d) \<le> length (filter Q d)"
  by (induction d) auto

lemma calculate_percentile_mono_aux:
  assumes "(case v of None \<Rightarrow> 0 | Some y \<Rightarrow> y) \<le> (case w of None \<Rightarrow> (0::int) | Some y \<Rightarrow> y)"
  shows "calculate_percentile dists k v \<le> calculate_percentile dists k w"
proof (cases "dists k = None \<or> dists k = Some []")
  case True
  then show ?thesis by (simp add: calculate_percentile_empty)
next
  case False
  then obtain d where d: "dists k = Some d" "d \<noteq> []" by auto
  let ?v = "case v of None \<Rightarrow> 0 | Some y \<Rightarrow> y"
  let ?w = "case w of None \<Rightarrow> 0 | Some y \<Rightarrow> y"
  have "length (filter (\<lambda>x. x < ?v) d) \<le> length (filter (\<lambda>x. x < ?w) d)"
    using assms by (intro filter_length_mono) auto
  then have "100 * real (length (filter (\<lambda>x. x < ?v) d)) / real (length d)
      \<le> 100 * real (length (filter (\<lambda>x. x < ?w) d)) / real (length d)"
    by (rule percent_mono)
  then show ?thesis using d by (simp add: calculate_percentile_nonempty)
qed

lemma calculate_percentile_min:
  assumes "dists k = Some d" "d \<noteq> []"
  shows "calculate_percentile dists k (Some (Min (set d))) = 0"
proof -
  have "\<not> x < Min (set d)" if "x \<in> set d" for x
    using that by (simp add: not_less)
  then have "filter (\<lambda>x. x < Min (set d)) d = []"
    by (simp add: filter_empty_conv)
  then show ?thesis using assms by (simp add: calculate_percentile_nonempty)
qed

text \<open>
  Claim C3, as amended. On an empty (or unknown) distribution the percentile is 0; an
  absent value counts as 0; otherwise the result is 100 times the number of entries
  strictly below the value, divided by the number of entries (strict rank, ties not
  split). The result lies in the closed interval from 0 to 100; it is below 100 whenever
  some entry of the distribution is at least the value, as it is for a value taken from
  the distribution itself.
\<close>

theorem calculate_percentile_rank:
  "(dists k = None \<or> dists k = Some [] \<longrightarrow> calculate_percentile dists k v = 0)
   \<and> calculate_percentile dists k None = calculate_percentile dists k (Some 0)
   \<and> (dists k = Some d \<and> d \<noteq> [] \<longrightarrow>
        calculate_percentile dists k (Some x)
          = 100 * real (length (filter (\<lambda>y. y < x) d)) / real (length d))
   \<and> 0 \<le> calculate_percentile dists k v \<and> calculate_percentile dists k v \<le> 100
   \<and> (dists k = Some d \<and> (\<exists>y\<in>set d. (case v of None \<Rightarrow> 0 | Some x \<Rightarrow> x) \<le> y) \<longrightarrow>
        calculate_percentile dists k v < 100)"
proof -
  have "calculate_percentile dists k None = calculate_percentile dists k (Some 0)"
    by (simp add: calculate_percentile_def Let_def)
  moreover have "calculate_percentile dists k (Some x)
          = 100 * real (length (filter (\<lambda>y. y < x) d)) / real (length d)"
    if "dists k = Some d" "d \<noteq> []"
    using that calculate_percentile_nonempty [of dists k d "Some x"] by simp
  moreover have "calculate_percentile dists k v < 100"
    if "dists k = Some d" "\<exists>y\<in>set d. (case v of None \<Rightarrow> 0 | Some x \<Rightarrow> x) \<le> y"
    using that calculate_percentile_below_100 [of dists k d _ v] by blast
  ultimately show ?thesis
    using calculate_percentile_empty [of dists k v] calculate_percentile_range [of dists k v]
    by blast
qed

text \<open>
  The amended claim on the distribution 0, 1, ..., 9 and the value 3, and on an empty
  distribution.
\<close>

theorem calculate_percentile_rank_witness:
  "calculate_percentile example_distributions ''unis'' (Some 3) = 0
   \<and> calculate_percentile example_distributions ''bars'' None
       = calculate_percentile example_distributions ''bars'' (Some 0)
   \<and> calculate_percentile example_distributions ''bars'' (Some 3) = 30
   \<and> 0 \<le> calculate_percentile example_distributions ''bars'' (Some 3)
   \<and> calculate_percentile example_distributions ''bars'' (Some 3) < 100"
  using calculate_percentile_rank [of example_distributions "''unis''" "Some 3" "[]" 3]
    calculate_percentile_rank [of example_distributions "''bars''" "Some 3" "[0, 1, 2, 3, 4, 5, 6, 7, 8, 9]" 3]
  by (simp add: example_distributions_def)

text \<open>
  Claim C3 as stated fails: a value above every entry has percentile 100, which is not in
  the half-open interval.
\<close>

theorem calculate_percentile_reaches_100_counterexample:
  "calculate_percentile example_distributions ''bars'' (Some 12) = 100
   \<and> \<not> calculate_percentile example_distributions ''bars'' (Some 12) < 100"
  by (simp add: calculate_percentile_def example_distributions_def)

text \<open>
  Claim C7. For a fixed distribution the percentile is monotonically non-decreasing in the
  value (an absent value counting as 0); the percentile of the minimum of a non-empty
  distribution is 0; on an empty (or unknown) distribution it is 0 for every value.
\<close>

theorem calculate_percentile_monotone:
  "((case v of None \<Rightarrow> 0 | Some y \<Rightarrow> y) \<le> (case w of None \<Rightarrow> 0 | Some y \<Rightarrow> y) \<longrightarrow>
      calculate_percentile dists k v \<le> calculate_percentile dists k w)
   \<and> (dists k = Some d \<and> d \<noteq> [] \<longrightarrow> calculate_percentile dists k (Some (Min (set d))) = 0)
   \<and> (dists k = None \<or> dists k = Some [] \<longrightarrow> calculate_percentile dists k v = 0)"
  using calculate_percentile_mono_aux [of v w dists k] calculate_percentile_min [of dists k d]
    calculate_percentile_empty [of dists k v]
  by blast

text \<open>
  The three parts on the distribution 0, 1, ..., 9 and on an empty distribution.
\<close>

theorem calculate_percentile_monotone_witness:
  "calculate_percentile example_distributions ''bars'' (Some 3)
     \<le> calculate_percentile example_distributions ''bars'' (Some 4)
   \<and> calculate_percentile example_distributions ''bars'' (Some (Min (set [0, 1, 2, 3, 4, 5, 6, 7, 8, 9]))) = 0
   \<and> calculate_percentile example_distributions ''unis'' (Some 4) = 0"
  using calculate_percentile_monotone [of "Some 3" "Some 4" example_distributions "''bars''" "[0, 1, 2, 3, 4, 5, 6, 7, 8, 9]"]
    calculate_percentile_monotone [of "Some 4" "Some 4" example_distributions "''unis''" "[]"]
  by (simp add: example_distributions_def)

subsection \<open>TimeDNA extraction\<close>

lemma resolve_day_short:
  assumes "STATION_PULSE_CACHE t (normalize_key station) = None"
      and "CLUSTER_PROFILES t cid = Some p" "length p < 24"
  shows "resolve_day t station cid = replicate 24 (Fin 20)"
  using assms by (simp add: resolve_day_def)

lemma resolve_day_missing:
  assumes "STATION_PULSE_CACHE t (normalize_key station) = None"
      and "CLUSTER_PROFILES t cid = None"
  shows "resolve_day t station cid = replicate 24 (Fin 20)"
  using assms by (simp add: resolve_day_def)

lemma resolve_day_long:
  assumes "STATION_PULSE_CACHE t (normalize_key station) = None"
      and "CLUSTER_PROFILES t cid = Some p" "24 \<le> length p"
  shows "resolve_day t station cid = take 24 p"
  using assms by (simp add: resolve_day_def)

lemma flat20: "replicate 24 (Fin 20) = [Fin 20, Fin 20, Fin 20, Fin 20, Fin 20, Fin 20, Fin 20, Fin 20,
   Fin 20, Fin 20, Fin 20, Fin 20, Fin 20, Fin 20, Fin 20, Fin 20,
   Fin 20, Fin 20, Fin 20, Fin 20, Fin 20, Fin 20, Fin 20, Fin 20]"
  by (simp add: numeral_eq_Suc)

lemma buckets_flat20:
  "buckets (nan_to_num (replicate 24 (Fin 20))) =
     Inr [(''morning'', 20), (''lunch'', 20), (''evening'', 20), (''night'', 20)]"
  unfolding flat20
  by (simp add: buckets_def nan_to_num_def slice_def np_mean_def trunc_def)

lemma sum_list_bounds:
  "\<forall>x\<in>set xs. lo \<le> x \<and> x \<le> (hi::real) \<Longrightarrow>
   real (length xs) * lo \<le> sum_list xs \<and> sum_list xs \<le> real (length xs) * hi"
  by (induction xs) (auto simp: algebra_simps)

lemma mean_bounds:
  assumes "xs \<noteq> []" "\<forall>x\<in>set xs. lo \<le> x \<and> x \<le> (hi::real)"
  shows "lo \<le> sum_list xs / real (length xs) \<and> sum_list xs / real (length xs) \<le> hi"
proof -
  have n: "0 < real (length xs)" using assms(1) by simp
  from sum_list_bounds [OF assms(2)] n show ?thesis by (simp add: field_simps)
qed

lemma trunc_bounds: "0 \<le> r \<Longrightarrow> r \<le> 100 \<Longrightarrow> 0 \<le> trunc r \<and> trunc r \<le> 100"
  unfolding trunc_def by (simp add: floor_le_iff) 

lemma np_mean_slice:
  assumes "length xs = 24" "\<forall>x\<in>set xs. 0 \<le> x \<and> x \<le> (100::real)" "a < b" "b \<le> 24"
  shows "\<exists>r. np_mean (slice a b xs) = Fin r \<and> 0 \<le> r \<and> r \<le> 100"
proof -
  have "length (slice a b xs) = b - a" using assms(1,3,4) by (simp add: slice_def)
  then have ne: "slice a b xs \<noteq> []" using assms(3) by auto
  have "set (slice a b xs) \<subseteq> set xs"
    unfolding slice_def by (meson set_take_subset set_drop_subset subset_trans)
  then have "\<forall>x\<in>set (slice a b xs). 0 \<le> x \<and> x \<le> 100" using assms(2) by blast
  from mean_bounds [OF ne this] ne show ?thesis by (simp add: np_mean_def)
qed

lemma buckets_in_range:
  assumes len: "length xs = 24" and rng: "\<forall>x\<in>set xs. 0 \<le> x \<and> x \<le> (100::real)"
  shows "\<exists>m l e n. buckets xs =
            Inr [(''morning'', m), (''lunch'', l), (''evening'', e), (''night'', n)]
          \<and> 0 \<le> m \<and> m \<le> 100 \<and> 0 \<le> l \<and> l \<le> 100
          \<and> 0 \<le> e \<and> e \<le> 100 \<and> 0 \<le> n \<and> n \<le> 100"
proof -
  obtain a where a: "np_mean (slice 6 10 xs) = Fin a" "0 \<le> a" "a \<le> 100"
    using np_mean_slice [OF len rng, of 6 10] by auto
  obtain b where b: "np_mean (slice 11 14 xs) = Fin b" "0 \<le> b" "b \<le> 100"
    using np_mean_slice [OF len rng, of 11 14] by auto
  obtain c where c: "np_mean (slice 16 20 xs) = Fin c" "0 \<le> c" "c \<le> 100"
    using np_mean_slice [OF len rng, of 16 20] by auto
  obtain d where d: "np_mean (slice 22 24 xs) = Fin d" "0 \<le> d" "d \<le> 100"
    using np_mean_slice [OF len rng, of 22 24] by auto
  obtain e where e: "np_mean (slice 0 4 xs) = Fin e" "0 \<le> e" "e \<le> 100"
    using np_mean_slice [OF len rng, of 0 4] by auto
  have n: "0 \<le> (d + e) / 2" "(d + e) / 2 \<le> 100" using d e by auto
  have "buckets xs = Inr [(''morning'', trunc a), (''lunch'', trunc b),
          (''evening'', trunc c), (''night'', trunc ((d + e) / 2))]"
    by (simp add: buckets_def a b c d e)
  with trunc_bounds [OF a(2,3)] trunc_bounds [OF b(2,3)] trunc_bounds [OF c(2,3)]
    trunc_bounds [OF n] show ?thesis by blast
qed

lemma nan_to_num_range:
  assumes "\<forall>x\<in>set day. \<exists>r. x = Fin r \<and> 0 \<le> r \<and> r \<le> 100"
  shows "\<forall>x\<in>set (nan_to_num day). 0 \<le> x \<and> x \<le> 100"
  using assms by (auto simp: nan_to_num_def)

lemma get_clean_time_dna_range:
  assumes "resolve_day t station cid = day" "length day = 24"
    and "\<forall>x\<in>set day. \<exists>r. x = Fin r \<and> 0 \<le> r \<and> r \<le> 100"
  shows "\<exists>m l e n. get_clean_time_dna t station cid =
            Inr [(''morning'', m), (''lunch'', l), (''evening'', e), (''night'', n)]
          \<and> 0 \<le> m \<and> m \<le> 100 \<and> 0 \<le> l \<and> l \<le> 100
          \<and> 0 \<le> e \<and> e \<le> 100 \<and> 0 \<le> n \<and> n \<le> 100"
proof -
  have "length (nan_to_num day) = 24" using assms(2) by (simp add: nan_to_num_def)
  from buckets_in_range [OF this nan_to_num_range [OF assms(3)]] assms(1)
  show ?thesis by (simp add: get_clean_time_dna_def)
qed

text \<open>
  Claim C4, as amended. When the station has no pulse of its own: a cluster profile with
  fewer than 24 values (or none) is discarded whole and the extraction works on 24 times
  20.0, which gives 20 in every bucket; a profile with at least 24 values contributes
  exactly its first 24.
\<close>

theorem cluster_fallback_pulse:
  "STATION_PULSE_CACHE t (normalize_key station) = None \<longrightarrow>
     ((CLUSTER_PROFILES t cid = None \<or> (\<exists>p. CLUSTER_PROFILES t cid = Some p \<and> length p < 24) \<longrightarrow>
        resolve_day t station cid = replicate 24 (Fin 20)
        \<and> get_clean_time_dna t station cid
            = Inr [(''morning'', 20), (''lunch'', 20), (''evening'', 20), (''night'', 20)])
      \<and> (\<forall>p. CLUSTER_PROFILES t cid = Some p \<and> 24 \<le> length p \<longrightarrow>
            resolve_day t station cid = take 24 p
            \<and> get_clean_time_dna t station cid = buckets (nan_to_num (take 24 p))))"
proof (intro impI conjI allI)
  assume st: "STATION_PULSE_CACHE t (normalize_key station) = None"
  {
    assume "CLUSTER_PROFILES t cid = None \<or> (\<exists>p. CLUSTER_PROFILES t cid = Some p \<and> length p < 24)"
    then show day: "resolve_day t station cid = replicate 24 (Fin 20)"
      using st resolve_day_missing [of t station cid] resolve_day_short [of t station cid] by blast
    show "get_clean_time_dna t station cid
            = Inr [(''morning'', 20), (''lunch'', 20), (''evening'', 20), (''night'', 20)]"
      unfolding get_clean_time_dna_def day by (rule buckets_flat20)
  }
  {
    fix p assume "CLUSTER_PROFILES t cid = Some p \<and> 24 \<le> length p"
    then show day: "resolve_day t station cid = take 24 p"
      using st resolve_day_long [of t station cid p] by blast
    show "get_clean_time_dna t station cid = buckets (nan_to_num (take 24 p))"
      unfolding get_clean_time_dna_def day by (rule refl)
  }
qed

lemma normalize_canal: "normalize_key ''Canal St'' = ''canalst''"
  by (simp add: normalize_key_def is_alnum_def lower_def)

text \<open>
  The amended claim on a cluster whose profile has 10 values and on one whose profile has
  48.
\<close>

theorem cluster_fallback_pulse_witness:
  "resolve_day example_tables ''Canal St'' ''1'' = replicate 24 (Fin 20)
   \<and> get_clean_time_dna example_tables ''Canal St'' ''1''
       = Inr [(''morning'', 20), (''lunch'', 20), (''evening'', 20), (''night'', 20)]
   \<and> resolve_day example_tables ''Canal St'' ''2'' = example_pulse
   \<and> get_clean_time_dna example_tables ''Canal St'' ''2'' = buckets (nan_to_num example_pulse)"
  using cluster_fallback_pulse [of example_tables "''Canal St''" "''1''"]
    cluster_fallback_pulse [of example_tables "''Canal St''" "''2''"]
  by (simp add: normalize_canal example_tables_def short_profile_def example_pulse_def)

text \<open>
  Claim C4 as stated fails: for a profile of ten values 100.0 the extraction does not work
  on those values padded with 20.0. The padded pulse would give morning 100 and night 60;
  the code gives 20 everywhere.
\<close>

theorem short_profile_not_padded_counterexample:
  "resolve_day example_tables ''Canal St'' ''1'' \<noteq> short_profile @ replicate (24 - length short_profile) (Fin 20)
   \<and> get_clean_time_dna example_tables ''Canal St'' ''1''
       = Inr [(''morning'', 20), (''lunch'', 20), (''evening'', 20), (''night'', 20)]
   \<and> buckets (nan_to_num (short_profile @ replicate (24 - length short_profile) (Fin 20)))
       = Inr [(''morning'', 100), (''lunch'', 20), (''evening'', 20), (''night'', 60)]"
  by (simp add: example_tables_def short_profile_def resolve_day_def normalize_canal
      get_clean_time_dna_def buckets_flat20 numeral_eq_Suc
      buckets_def nan_to_num_def slice_def np_mean_def trunc_def)

text \<open>
  Claim C8. When the pulse the extraction works on has 24 values, all in the interval from
  0 to 100, extraction succeeds and the four buckets are integers between 0 and 100; the
  all-20 fallback pulse gives 20 in every bucket.
\<close>

theorem time_dna_buckets_in_range:
  "(resolve_day t station cid = day \<and> length day = 24
      \<and> (\<forall>x\<in>set day. \<exists>r. x = Fin r \<and> 0 \<le> r \<and> r \<le> 100) \<longrightarrow>
      (\<exists>m l e n. get_clean_time_dna t station cid
            = Inr [(''morning'', m), (''lunch'', l), (''evening'', e), (''night'', n)]
          \<and> 0 \<le> m \<and> m \<le> 100 \<and> 0 \<le> l \<and> l \<le> 100
          \<and> 0 \<le> e \<and> e \<le> 100 \<and> 0 \<le> n \<and> n \<le> 100))
   \<and> (resolve_day t station cid = replicate 24 (Fin 20) \<longrightarrow>
        get_clean_time_dna t station cid
          = Inr [(''morning'', 20), (''lunch'', 20), (''evening'', 20), (''night'', 20)])"
proof (intro conjI impI)
  assume "resolve_day t station cid = day \<and> length day = 24
      \<and> (\<forall>x\<in>set day. \<exists>r. x = Fin r \<and> 0 \<le> r \<and> r \<le> 100)"
  then show "\<exists>m l e n. get_clean_time_dna t station cid
            = Inr [(''morning'', m), (''lunch'', l), (''evening'', e), (''night'', n)]
          \<and> 0 \<le> m \<and> m \<le> 100 \<and> 0 \<le> l \<and> l \<le> 100
          \<and> 0 \<le> e \<and> e \<le> 100 \<and> 0 \<le> n \<and> n \<le> 100"
    using get_clean_time_dna_range [of t station cid day] by blast
next
  assume "resolve_day t station cid = replicate 24 (Fin 20)"
  then show "get_clean_time_dna t station cid
          = Inr [(''morning'', 20), (''lunch'', 20), (''evening'', 20), (''night'', 20)]"
    by (simp add: get_clean_time_dna_def buckets_flat20)
qed

lemma normalize_times_sq: "normalize_key ''Times Sq-42 St'' = ''timessq42st''"
  by (simp add: normalize_key_def is_alnum_def lower_def)

lemma example_pulse_station: "resolve_day example_tables ''Times Sq-42 St'' ''1'' = example_pulse"
  by (simp add: resolve_day_def normalize_times_sq example_tables_def)

lemma example_pulse_ok:
  "length example_pulse = 24 \<and> (\<forall>x\<in>set example_pulse. \<exists>r. x = Fin r \<and> 0 \<le> r \<and> r \<le> 100)"
  by (simp add: example_pulse_def)

text \<open>
  Both parts on the example tables: a station with a pulse of its own, and a station that
  falls back to the flat pulse.
\<close>

theorem time_dna_buckets_in_range_witness:
  "(\<exists>m l e n. get_clean_time_dna example_tables ''Times Sq-42 St'' ''1''
            = Inr [(''morning'', m), (''lunch'', l), (''evening'', e), (''night'', n)]
          \<and> 0 \<le> m \<and> m \<le> 100 \<and> 0 \<le> l \<and> l \<le> 100
          \<and> 0 \<le> e \<and> e \<le> 100 \<and> 0 \<le> n \<and> n \<le> 100)
   \<and> get_clean_time_dna example_tables ''Canal St'' ''1''
          = Inr [(''morning'', 20), (''lunch'', 20), (''evening'', 20), (''night'', 20)]"
proof -
  have flat: "resolve_day example_tables ''Canal St'' ''1'' = replicate 24 (Fin 20)"
    by (simp add: resolve_day_def normalize_canal example_tables_def short_profile_def)
  show ?thesis
    using time_dna_buckets_in_range [of example_tables "''Times Sq-42 St''" "''1''" example_pulse]
      time_dna_buckets_in_range [of example_tables "''Canal St''" "''1''" example_pulse]
      example_pulse_station example_pulse_ok flat
    by blast
qed

lemma example_pulse_dna:
  "get_clean_time_dna example_tables ''Times Sq-42 St'' ''1''
     = Inr [(''morning'', 30), (''lunch'', 20), (''evening'', 45), (''night'', 55)]"
  by (simp add: get_clean_time_dna_def example_pulse_station example_pulse_def
      buckets_def nan_to_num_def slice_def np_mean_def trunc_def)

subsection \<open>The narrative generator\<close>

lemma max_key4:
  "max_key [(''morning'', m), (''lunch'', l), (''evening'', e), (''night'', n)] =
     Some (if l \<le> m \<and> e \<le> m \<and> n \<le> m then ''morning''
           else if e \<le> l \<and> n \<le> l then ''lunch''
           else if n \<le> e then ''evening''
           else ''night'')"
  by auto

lemma character_type4:
  "character_type vitality office uni
      [(''morning'', m), (''lunch'', l), (''evening'', e), (''night'', n)] =
     Inr (if uni > 2 then ''Academic''
          else if vitality > 75 \<and> n > 40 then ''Nightlife''
          else if office > 70 then ''Corporate''
          else if office > 50 \<and> vitality > 50 then ''Mixed-Use''
          else if m > 60 then ''Commuter''
          else if vitality < 20 \<and> office < 20 then ''Residential''
          else ''Standard'')"
  by (simp add: character_type_def dna_get_def)

lemma sentences_distinct:
  "morning_sentence \<noteq> consistent_sentence" "lunch_sentence \<noteq> consistent_sentence"
  "evening_sentence \<noteq> consistent_sentence" "night_sentence \<noteq> consistent_sentence"
  by (simp_all add: morning_sentence_def lunch_sentence_def evening_sentence_def
      night_sentence_def consistent_sentence_def)

lemma generate4:
  "\<exists>ct. character_type vitality office uni
            [(''morning'', m), (''lunch'', l), (''evening'', e), (''night'', n)] = Inr ct
     \<and> generate borough vitality office uni
            [(''morning'', m), (''lunch'', l), (''evening'', e), (''night'', n)]
         = Inr \<lparr>persona = persona_of borough ct,
                description = vibe_desc borough vitality ct @ '' '' @
                  time_desc (if l \<le> m \<and> e \<le> m \<and> n \<le> m then ''morning''
                             else if e \<le> l \<and> n \<le> l then ''lunch''
                             else if n \<le> e then ''evening''
                             else ''night'')\<rparr>"
  unfolding generate_def character_type4 max_key4 by simp

lemma time_desc_keys:
  "time_desc ''morning'' = morning_sentence" "time_desc ''lunch'' = lunch_sentence"
  "time_desc ''evening'' = evening_sentence" "time_desc ''night'' = night_sentence"
  by (simp_all add: time_desc_def)

text \<open>
  Claim C6, as amended. For a TimeDNA with the four buckets, generation succeeds and the
  description is the first sentence, one space, and the sentence of the dominant bucket:
  the bucket with the maximal value, ties going to the earlier of morning, lunch, evening,
  night. It is one of the four templates and never the "consistent ridership" sentence;
  when all four buckets are equal it is the morning template.
\<close>

theorem dominant_bucket_sentence:
  "\<exists>ct. character_type vitality office uni
            [(''morning'', m), (''lunch'', l), (''evening'', e), (''night'', n)] = Inr ct
     \<and> generate borough vitality office uni
            [(''morning'', m), (''lunch'', l), (''evening'', e), (''night'', n)]
         = Inr \<lparr>persona = persona_of borough ct,
                description = vibe_desc borough vitality ct @ '' '' @
                  (if l \<le> m \<and> e \<le> m \<and> n \<le> m then morning_sentence
                   else if e \<le> l \<and> n \<le> l then lunch_sentence
                   else if n \<le> e then evening_sentence
                   else night_sentence)\<rparr>
     \<and> (if l \<le> m \<and> e \<le> m \<and> n \<le> m then morning_sentence
         else if e \<le> l \<and> n \<le> l then lunch_sentence
         else if n \<le> e then evening_sentence
         else night_sentence) \<noteq> consistent_sentence"
proof -
  have eq: "time_desc (if l \<le> m \<and> e \<le> m \<and> n \<le> m then ''morning''
                             else if e \<le> l \<and> n \<le> l then ''lunch''
                             else if n \<le> e then ''evening''
                             else ''night'')
      = (if l \<le> m \<and> e \<le> m \<and> n \<le> m then morning_sentence
         else if e \<le> l \<and> n \<le> l then lunch_sentence
         else if n \<le> e then evening_sentence
         else night_sentence)"
    by (simp add: time_desc_keys)
  have ne: "(if l \<le> m \<and> e \<le> m \<and> n \<le> m then morning_sentence
         else if e \<le> l \<and> n \<le> l then lunch_sentence
         else if n \<le> e then evening_sentence
         else night_sentence) \<noteq> consistent_sentence"
    using sentences_distinct by presburger
  from generate4 [of vitality office uni m l e n borough]
  obtain ct where ct: "character_type vitality office uni
            [(''morning'', m), (''lunch'', l), (''evening'', e), (''night'', n)] = Inr ct"
    and g: "generate borough vitality office uni
            [(''morning'', m), (''lunch'', l), (''evening'', e), (''night'', n)]
         = Inr \<lparr>persona = persona_of borough ct,
                description = vibe_desc borough vitality ct @ '' '' @
                  time_desc (if l \<le> m \<and> e \<le> m \<and> n \<le> m then ''morning''
                             else if e \<le> l \<and> n \<le> l then ''lunch''
                             else if n \<le> e then ''evening''
                             else ''night'')\<rparr>"
    by blast
  from g have g': "generate borough vitality office uni
            [(''morning'', m), (''lunch'', l), (''evening'', e), (''night'', n)]
         = Inr \<lparr>persona = persona_of borough ct,
                description = vibe_desc borough vitality ct @ '' '' @
                  (if l \<le> m \<and> e \<le> m \<and> n \<le> m then morning_sentence
                   else if e \<le> l \<and> n \<le> l then lunch_sentence
                   else if n \<le> e then evening_sentence
                   else night_sentence)\<rparr>"
    unfolding eq .
  from ct g' ne show ?thesis by (intro exI [of _ ct] conjI)
qed

text \<open>
  Claim C6 as stated fails: with all four buckets equal to 20 the peak is morning and the
  second sentence is the morning template, not the "consistent ridership" fallback.
\<close>

theorem all_equal_buckets_counterexample:
  "max_key example_flat_dna = Some ''morning''
   \<and> generate ''Queens'' 30 30 0 example_flat_dna
       = Inr \<lparr>persona = ''Queens Local Stop'',
              description = ''A key Queens transit point serving the surrounding community. ''
                 @ morning_sentence\<rparr>
   \<and> generate ''Queens'' 30 30 0 example_flat_dna
       \<noteq> Inr \<lparr>persona = ''Queens Local Stop'',
              description = ''A key Queens transit point serving the surrounding community. ''
                 @ consistent_sentence\<rparr>"
  by (simp add: example_flat_dna_def generate_def character_type4 persona_of_def persona_map_def
      vibe_desc_def time_desc_def sentences_distinct)

text \<open>
  Claim C9. For the coordinates (40.739, -74.002) the classifier returns Manhattan; for
  vitality 90, office 20, no universities and the TimeDNA morning 30, lunch 20, evening 45,
  night 55 the cascade selects Nightlife, and the generated persona is
  "Manhattan Nightlife District".
\<close>

theorem end_to_end_manhattan_nightlife:
  "get_borough (Some (Fin 40.739)) (Some (Fin (- 74.002))) = ''Manhattan''
   \<and> character_type 90 20 0 example_dna = Inr ''Nightlife''
   \<and> generate ''Manhattan'' 90 20 0 example_dna
       = Inr \<lparr>persona = ''Manhattan Nightlife District'',
              description =
                ''A high-energy area (Vitality: 90%) bustling with evening social activity. ''
                 @ night_sentence\<rparr>"
proof -
  have "get_borough (Some (Fin 40.739)) (Some (Fin (- 74.002))) = ''Manhattan''"
    by (simp add: is_manhattan_def east_river_border_def)
  moreover have ct: "character_type 90 20 0 example_dna = Inr ''Nightlife''"
    by (simp add: example_dna_def character_type4)
  moreover have "max_key example_dna = Some ''night''"
    by (simp add: example_dna_def)
  moreover have "str_int (trunc 90) = ''90''"
    by (simp add: str_int_def trunc_def str_nat.simps digit_char_def)
  ultimately show ?thesis
    by (simp add: generate_def persona_of_def persona_map_def vibe_desc_def time_desc_def)
qed

subsection \<open>The narrative cache\<close>

lemma get_station_analysis_hit:
  "NARRATIVES_CACHE s station = Some (Dict r) \<Longrightarrow> get_station_analysis w x s station = (Inr r, s)"
  by (simp add: get_station_analysis_def)

lemma get_station_analysis_unknown:
  assumes "\<forall>r. NARRATIVES_CACHE s station \<noteq> Some (Dict r)" "clusters_db w station = []"
  shows "get_station_analysis w x s station = (Inr sentinel, s)"
  using assms by (simp add: get_station_analysis_def split: option.splits cached.splits)

lemma get_station_analysis_dna_error:
  assumes "\<forall>r. NARRATIVES_CACHE s station \<noteq> Some (Dict r)" "clusters_db w station = data # rest"
    and "get_clean_time_dna w station (cluster_id data) = Inl err"
  shows "get_station_analysis w x s station = (Inl err, s)"
  using assms by (simp add: get_station_analysis_def split: option.splits cached.splits)

lemma buckets_four_keys:
  "buckets xs = Inr dna \<Longrightarrow>
   \<exists>m l e n. dna = [(''morning'', m), (''lunch'', l), (''evening'', e), (''night'', n)]"
  by (auto simp: buckets_def split: sum.splits)

lemma generate_total_on_buckets:
  assumes "get_clean_time_dna t station cid = Inr dna"
  shows "\<exists>base. generate borough vitality office uni dna = Inr base"
proof -
  from assms obtain m l e n
    where "dna = [(''morning'', m), (''lunch'', l), (''evening'', e), (''night'', n)]"
    unfolding get_clean_time_dna_def using buckets_four_keys by blast
  with generate4 [of vitality office uni m l e n borough] show ?thesis by blast
qed

lemma polish_calls_polish:
  "polish c s result = (result', s') \<Longrightarrow>
     polish_calls s' = polish_calls s + (if c = None then 0 else 1)
     \<and> generate_calls s' = generate_calls s \<and> NARRATIVES_CACHE s' = NARRATIVES_CACHE s
     \<and> NARRATIVES_FILE s' = NARRATIVES_FILE s"
  by (auto simp: polish_def split: option.splits polish_outcome.splits)

lemma get_station_analysis_generates:
  assumes miss: "\<forall>r. NARRATIVES_CACHE s station \<noteq> Some (Dict r)"
    and row: "clusters_db w station = data # rest"
    and dna: "get_clean_time_dna w station (cluster_id data) = Inr dna"
  shows "\<exists>result s'. get_station_analysis w x s station = (Inr result, s')
      \<and> NARRATIVES_CACHE s' station = Some (Dict result)
      \<and> NARRATIVES_FILE s' =
          (case write_failure x of None \<Rightarrow> Stored (NARRATIVES_CACHE s') | Some left \<Rightarrow> left)
      \<and> generate_calls s' = generate_calls s + 1
      \<and> polish_calls s' = polish_calls s + (if client x = None then 0 else 1)"
proof -
  let ?borough = "get_borough (GTFS_Latitude data) (GTFS_Longitude data)"
  let ?vitality = "calculate_percentile (DISTRIBUTIONS w) ''bars'' (n_bars data)"
  let ?office = "calculate_percentile (DISTRIBUTIONS w) ''offices'' (n_offices data)"
  let ?uni = "case n_universities data of None \<Rightarrow> 0 | Some u \<Rightarrow> u"
  let ?s1 = "s\<lparr>generate_calls := Suc (generate_calls s)\<rparr>"
  obtain base where base: "generate ?borough ?vitality ?office ?uni dna = Inr base"
    using generate_total_on_buckets [OF dna] by blast
  let ?result = "\<lparr>persona = persona base, description = description base,
       vitality_score = Some ?vitality, office_score = Some ?office,
       is_ai_generated = Some False\<rparr>"
  obtain result' s2 where p: "polish (client x) ?s1 ?result = (result', s2)"
    by (cases "polish (client x) ?s1 ?result") blast
  let ?s3 = "s2\<lparr>NARRATIVES_CACHE := (NARRATIVES_CACHE s2)(station \<mapsto> Dict result')\<rparr>"
  have eq: "get_station_analysis w x s station = (Inr result', save_cache (write_failure x) ?s3)"
    using miss row dna base p
    by (simp add: get_station_analysis_def Let_def split: option.splits cached.splits)
  from polish_calls_polish [OF p] have
    "polish_calls s2 = polish_calls s + (if client x = None then 0 else 1)"
    "generate_calls s2 = generate_calls s + 1"
    by simp_all
  then show ?thesis
    unfolding eq by (auto simp: save_cache_def split: option.splits)
qed

lemma example_world_dna:
  "get_clean_time_dna example_world ''Times Sq-42 St'' ''1'' = Inr example_dna"
  by (simp add: get_clean_time_dna_def resolve_day_def normalize_times_sq example_world_def
      example_pulse_def example_dna_def
      buckets_def nan_to_num_def slice_def np_mean_def trunc_def)

lemma example_world_scores:
  "calculate_percentile (DISTRIBUTIONS example_world) ''bars'' (Some 9) = 90"
  "calculate_percentile (DISTRIBUTIONS example_world) ''offices'' (Some 2) = 20"
  by (simp_all add: calculate_percentile_def example_world_def example_distributions_def)

lemma example_generate:
  "generate ''Manhattan'' 90 20 0 example_dna
     = Inr \<lparr>persona = ''Manhattan Nightlife District'',
            description =
              ''A high-energy area (Vitality: 90%) bustling with evening social activity. ''
                @ night_sentence\<rparr>"
proof -
  have "character_type 90 20 0 example_dna = Inr ''Nightlife''"
    by (simp add: example_dna_def character_type4)
  moreover have "max_key example_dna = Some ''night''"
    by (simp add: example_dna_def)
  moreover have "str_int (trunc 90) = ''90''"
    by (simp add: str_int_def trunc_def str_nat.simps digit_char_def)
  ultimately show ?thesis
    by (simp add: generate_def persona_of_def persona_map_def vibe_desc_def time_desc_def)
qed

lemma example_borough:
  "get_borough (Some (Fin 40.739)) (Some (Fin (- 74.002))) = ''Manhattan''"
  by (simp add: is_manhattan_def east_river_border_def)

lemma example_row_facts:
  "get_borough (GTFS_Latitude example_row) (GTFS_Longitude example_row) = ''Manhattan''"
  "get_clean_time_dna example_world ''Times Sq-42 St'' (cluster_id example_row) = Inr example_dna"
  "calculate_percentile (DISTRIBUTIONS example_world) ''bars'' (n_bars example_row) = 90"
  "calculate_percentile (DISTRIBUTIONS example_world) ''offices'' (n_offices example_row) = 20"
  "n_universities example_row = None"
  "clusters_db example_world ''Times Sq-42 St'' = [example_row]"
  using example_borough example_world_dna example_world_scores
  by (simp_all add: example_row_def example_world_def)

lemma example_failing_run:
  "get_station_analysis example_world failing_write example_start ''Times Sq-42 St''
     = (Inr example_narrative, example_after)"
proof -
  have miss: "NARRATIVES_CACHE example_start ''Times Sq-42 St'' = None"
    by (simp add: example_start_def)
  show ?thesis
    unfolding get_station_analysis_def miss
    by (simp add: Let_def example_row_facts example_generate
        polish_def failing_write_def save_cache_def example_start_def example_after_def
        example_narrative_def)
qed

lemma get_station_analysis_cases:
  obtains (hit) r where "NARRATIVES_CACHE s station = Some (Dict r)"
      "get_station_analysis w x s station = (Inr r, s)"
  | (unknown) "\<forall>r. NARRATIVES_CACHE s station \<noteq> Some (Dict r)" "clusters_db w station = []"
      "\<And>y. get_station_analysis w y s station = (Inr sentinel, s)"
  | (error) err where "\<forall>r. NARRATIVES_CACHE s station \<noteq> Some (Dict r)"
      "\<And>y. get_station_analysis w y s station = (Inl err, s)"
  | (generated) result s' where "\<forall>r. NARRATIVES_CACHE s station \<noteq> Some (Dict r)"
      "get_station_analysis w x s station = (Inr result, s')"
      "NARRATIVES_CACHE s' station = Some (Dict result)"
      "NARRATIVES_FILE s' =
          (case write_failure x of None \<Rightarrow> Stored (NARRATIVES_CACHE s') | Some left \<Rightarrow> left)"
      "generate_calls s' = generate_calls s + 1"
      "polish_calls s' = polish_calls s + (if client x = None then 0 else 1)"
proof (cases "\<exists>r. NARRATIVES_CACHE s station = Some (Dict r)")
  case True
  then obtain r where "NARRATIVES_CACHE s station = Some (Dict r)" by blast
  then show ?thesis using hit get_station_analysis_hit by blast
next
  case False
  then have miss: "\<forall>r. NARRATIVES_CACHE s station \<noteq> Some (Dict r)" by blast
  show ?thesis
  proof (cases "clusters_db w station")
    case Nil
    then show ?thesis using unknown miss get_station_analysis_unknown by blast
  next
    case (Cons data rest)
    show ?thesis
    proof (cases "get_clean_time_dna w station (cluster_id data)")
      case (Inl err)
      then show ?thesis using error miss Cons get_station_analysis_dna_error by blast
    next
      case (Inr dna)
      from get_station_analysis_generates [OF miss Cons Inr, of x]
      show ?thesis using generated miss by blast
    qed
  qed
qed

text \<open>
  Claim C1. The station table and the startup tables are fixed (\<open>w\<close>); what the polish
  collaborator answers and whether the write succeeds may differ between the two requests
  (\<open>x1\<close>, \<open>x2\<close>). For every station identity and every starting state, the second of two
  successive requests returns what the first returned and leaves the state as the first
  left it: it generates nothing, calls no collaborator and writes nothing. Across both
  requests the collaborator is called at most once and the generator at most once. Whenever
  the cache holds a record for the identity after the first request, the second request
  returns that stored record as it is. (For an identity without a row in the station table
  nothing is stored, and both requests return the same not-found answer.)
\<close>

theorem get_station_analysis_idempotent:
  assumes first: "get_station_analysis w x1 s0 station = (r1, s1)"
      and second: "get_station_analysis w x2 s1 station = (r2, s2)"
  shows "r2 = r1 \<and> s2 = s1
     \<and> polish_calls s2 \<le> polish_calls s0 + 1
     \<and> generate_calls s2 \<le> generate_calls s0 + 1
     \<and> (\<forall>stored. NARRATIVES_CACHE s1 station = Some (Dict stored) \<longrightarrow> r2 = Inr stored)"
proof -
  have served: "r2 = Inr stored" if "NARRATIVES_CACHE s1 station = Some (Dict stored)" for stored
    using get_station_analysis_hit [OF that, of w x2] second by simp
  have "r2 = r1 \<and> s2 = s1 \<and> polish_calls s2 \<le> polish_calls s0 + 1
     \<and> generate_calls s2 \<le> generate_calls s0 + 1"
  proof (cases rule: get_station_analysis_cases [of s0 station w x1])
    case (hit r)
    with first have "r1 = Inr r" "s1 = s0" by simp_all
    with hit(1) second get_station_analysis_hit [of s0 station r w x2] show ?thesis by simp
  next
    case unknown
    with first have "r1 = Inr sentinel" "s1 = s0" by simp_all
    with unknown(3) [of x2] second show ?thesis by simp
  next
    case (error err)
    with first have "r1 = Inl err" "s1 = s0" by simp_all
    with error(2) [of x2] second show ?thesis by simp
  next
    case (generated result s')
    with first have eq: "r1 = Inr result" "s1 = s'" by simp_all
    from generated(3) eq second get_station_analysis_hit [of s1 station result w x2]
    have "r2 = r1" "s2 = s1" by simp_all
    with eq generated(5,6) show ?thesis by simp
  qed
  with served show ?thesis by blast
qed

lemma example_polished_run:
  "get_station_analysis example_world example_polished example_start ''Times Sq-42 St''
     = (Inr example_polished_narrative, example_after_polish)"
proof -
  have miss: "NARRATIVES_CACHE example_start ''Times Sq-42 St'' = None"
    by (simp add: example_start_def)
  show ?thesis
    unfolding get_station_analysis_def miss
    by (simp add: Let_def example_row_facts example_generate
        polish_def example_polished_def save_cache_def example_start_def example_after_polish_def
        example_polished_narrative_def)
qed

text \<open>
  Two requests for a station of the example world, starting from an empty cache, with a
  collaborator that answers: the first generates, polishes and stores, the second returns
  the stored record and changes nothing.
\<close>

theorem get_station_analysis_idempotent_witness:
  "get_station_analysis example_world example_polished example_start ''Times Sq-42 St''
     = (Inr example_polished_narrative, example_after_polish)
   \<and> get_station_analysis example_world example_polished example_after_polish ''Times Sq-42 St''
     = (Inr example_polished_narrative, example_after_polish)
   \<and> polish_calls example_after_polish = 1 \<and> generate_calls example_after_polish = 1"
proof -
  obtain r2 s2 where second:
    "get_station_analysis example_world example_polished example_after_polish ''Times Sq-42 St''
       = (r2, s2)"
    by (cases "get_station_analysis example_world example_polished example_after_polish
        ''Times Sq-42 St''") blast
  from get_station_analysis_idempotent [OF example_polished_run second]
  have "r2 = Inr example_polished_narrative" "s2 = example_after_polish" by simp_all
  with second example_polished_run show ?thesis
    by (simp add: example_after_polish_def)
qed

lemma result_ignores_write_failure:
  "fst (get_station_analysis w (x\<lparr>write_failure := f\<rparr>) s station)
     = fst (get_station_analysis w x s station)"
  by (simp add: get_station_analysis_def Let_def split_beta
      split: option.splits cached.splits list.splits sum.splits)

text \<open>
  Claim C5, as amended. When a request generates a record (no record cached, a row in the
  station table, extraction succeeds) and the write of the cache file fails, the request
  still returns the record it computed, the same one a successful write would have
  returned; the file is left as the failed write left it, but the record stays in the
  in-memory cache, so the next request for the same identity is served that record from
  the cache and generation is not retried.
\<close>

theorem failed_write_served_from_memory:
  assumes "\<forall>r. NARRATIVES_CACHE s station \<noteq> Some (Dict r)"
      and "clusters_db w station = data # rest"
      and "get_clean_time_dna w station (cluster_id data) = Inr dna"
      and "write_failure x1 = Some left"
      and "get_station_analysis w x1 s station = (r1, s1)"
  shows "\<exists>result. r1 = Inr result
     \<and> fst (get_station_analysis w (x1\<lparr>write_failure := None\<rparr>) s station) = Inr result
     \<and> NARRATIVES_FILE s1 = left
     \<and> NARRATIVES_CACHE s1 station = Some (Dict result)
     \<and> get_station_analysis w x2 s1 station = (Inr result, s1)"
proof -
  from get_station_analysis_generates [OF assms(1,2,3), of x1] assms(4,5)
  obtain result where r: "r1 = Inr result" "NARRATIVES_CACHE s1 station = Some (Dict result)"
    "NARRATIVES_FILE s1 = left"
    by auto
  have "fst (get_station_analysis w (x1\<lparr>write_failure := None\<rparr>) s station) = Inr result"
    using result_ignores_write_failure [of w None x1 s station] assms(5) r(1) by simp
  with r get_station_analysis_hit [OF r(2), of w x2] show ?thesis by blast
qed

text \<open>
  The amended claim in the example world, with a write that fails and leaves no file.
\<close>

theorem failed_write_served_from_memory_witness:
  "get_station_analysis example_world failing_write example_start ''Times Sq-42 St''
     = (Inr example_narrative, example_after)
   \<and> NARRATIVES_FILE example_after = NoFile
   \<and> NARRATIVES_CACHE example_after ''Times Sq-42 St'' = Some (Dict example_narrative)
   \<and> get_station_analysis example_world example_polished example_after ''Times Sq-42 St''
     = (Inr example_narrative, example_after)"
proof -
  have miss: "\<forall>r. NARRATIVES_CACHE example_start ''Times Sq-42 St'' \<noteq> Some (Dict r)"
    by (simp add: example_start_def)
  have fails: "write_failure failing_write = Some NoFile"
    by (simp add: failing_write_def)
  from failed_write_served_from_memory [OF miss example_row_facts(6) example_row_facts(2) fails
      example_failing_run, of example_polished]
  show ?thesis using example_failing_run by auto
qed

text \<open>
  Claim C5 as stated fails: after a request whose write failed (the file does not exist
  afterwards), the next request for the same station returns the record from the in-memory
  cache, leaves the state unchanged, and the generator has still been called once only.
\<close>

theorem failed_write_not_retried_counterexample:
  "fst (get_station_analysis example_world failing_write example_start ''Times Sq-42 St'')
     = Inr example_narrative
   \<and> NARRATIVES_FILE
        (snd (get_station_analysis example_world failing_write example_start ''Times Sq-42 St''))
     = NoFile
   \<and> get_station_analysis example_world example_polished
        (snd (get_station_analysis example_world failing_write example_start ''Times Sq-42 St''))
        ''Times Sq-42 St''
     = (Inr example_narrative,
        snd (get_station_analysis example_world failing_write example_start ''Times Sq-42 St''))
   \<and> generate_calls
        (snd (get_station_analysis example_world example_polished
          (snd (get_station_analysis example_world failing_write example_start ''Times Sq-42 St''))
          ''Times Sq-42 St''))
     = 1"
proof -
  have hit: "NARRATIVES_CACHE example_after ''Times Sq-42 St'' = Some (Dict example_narrative)"
    by (simp add: example_after_def)
  have "get_station_analysis example_world example_polished example_after ''Times Sq-42 St''
     = (Inr example_narrative, example_after)"
    by (simp add: get_station_analysis_def hit)
  then show ?thesis
    by (simp add: example_failing_run) (simp add: example_after_def)
qed

end
